theory Spec2Isabelle
  imports Complex_Main "HOL-Library.Sublist"
begin

section \<open>Generation adapter (src/lib/gemini.ts)\<close>

text \<open>
  The value a promise settles with: \<open>await\<close> either yields the resolved value or
  rethrows the rejection.
\<close>

datatype ('e, 'a) outcome = Resolves 'a | Rejects 'e

text \<open>
  The values that can be thrown, by the adapter or by the service client alike:
  \<open>Error m\<close> is \<open>new Error(m)\<close>, \<open>TypeError\<close> is what the engine raises on reading a
  property of \<open>undefined\<close> or iterating it, \<open>Other e\<close> is any other value. The
  \<open>catch\<close> block of \<open>generateAIImage\<close> logs what it caught and rethrows it as it is,
  so what the service client throws reaches the caller unchanged and untagged.
\<close>

datatype 'e thrown = Error string | TypeError | Other 'e

datatype aspect_ratio = R9_16 | R16_9

fun aspect_ratio_text :: "aspect_ratio \<Rightarrow> string" where
  "aspect_ratio_text R9_16 = ''9:16''"
| "aspect_ratio_text R16_9 = ''16:9''"

text \<open>The request handed to \<open>ai.models.generateContent\<close>.\<close>

record generate_request =
  model :: string
  request_data :: "string option"
  mimeType :: string
  request_text :: string
  config_aspectRatio :: aspect_ratio

text \<open>
  The response of the service, as far as the adapter reads it. Every field the
  adapter reads may be missing (\<open>undefined\<close>), hence the options.
\<close>

record inline_data =
  data :: "string option"

record part =
  inlineData :: "inline_data option"
  part_text :: "string option"

record content =
  parts :: "part list option"

record candidate =
  content :: "content option"

record generate_response =
  candidates :: "candidate list option"

text \<open>\<open>s.split(",")\<close>: the pieces of \<open>s\<close> between commas; never the empty list.\<close>

fun split_comma :: "string \<Rightarrow> string list" where
  "split_comma [] = [[]]"
| "split_comma (c # cs) =
     (if c = CHR '','' then [] # split_comma cs
      else (case split_comma cs of
              [] \<Rightarrow> [[c]]
            | p # ps \<Rightarrow> (c # p) # ps))"

text \<open>\<open>xs[1]\<close>: \<open>undefined\<close> when the array has fewer than two elements.\<close>

fun index1 :: "'a list \<Rightarrow> 'a option" where
  "index1 (x # y # ys) = Some y"
| "index1 xs = None"

text \<open>Truthiness of an optional string: \<open>undefined\<close> and the empty string are falsy.\<close>

fun truthy :: "string option \<Rightarrow> bool" where
  "truthy None = False"
| "truthy (Some s) = (s \<noteq> [])"

text \<open>\<open>part.inlineData?.data\<close>\<close>

definition part_image :: "part \<Rightarrow> string option" where
  "part_image p = (case inlineData p of None \<Rightarrow> None | Some i \<Rightarrow> data i)"

text \<open>
  The \<open>for (const part of ...)\<close> loop with its \<open>return\<close>: the data of the first part
  whose \<open>inlineData?.data\<close> is truthy.
\<close>

fun first_image :: "part list \<Rightarrow> string option" where
  "first_image [] = None"
| "first_image (p # ps) =
     (if truthy (part_image p) then part_image p else first_image ps)"

definition MissingCredential :: "'e thrown" where
  "MissingCredential =
     Error ''Missing Gemini API key. Set VITE_GEMINI_API_KEY in Vercel Environment Variables and redeploy.''"

definition NoImageReturned :: "'e thrown" where
  "NoImageReturned = Error ''No image data returned from Gemini''"

definition build_request :: "string \<Rightarrow> string \<Rightarrow> aspect_ratio \<Rightarrow> generate_request" where
  "build_request base64Source prompt aspectRatio =
     \<lparr> model = ''gemini-2.5-flash-image'',
       request_data = index1 (split_comma base64Source),
       mimeType = ''image/png'',
       request_text = prompt @ ''. High resolution, '' @ aspect_ratio_text aspectRatio
         @ '' aspect ratio, cinematic lighting, photorealistic, maintaining person's facial features and identity. No text, no watermark.'',
       config_aspectRatio = aspectRatio \<rparr>"

text \<open>What the adapter does with a response (lines 40 to 49).\<close>

definition select_image :: "generate_response \<Rightarrow> 'e thrown + string" where
  "select_image response =
     (case candidates response of
        None \<Rightarrow> Inl NoImageReturned
      | Some [] \<Rightarrow> Inl NoImageReturned
      | Some (c0 # rest) \<Rightarrow>
          (case content c0 of
             None \<Rightarrow> Inl TypeError
           | Some ct \<Rightarrow>
               (case parts ct of
                  None \<Rightarrow> Inl TypeError
                | Some ps \<Rightarrow>
                    (case first_image ps of
                       Some d \<Rightarrow> Inr (''data:image/png;base64,'' @ d)
                     | None \<Rightarrow> Inl NoImageReturned))))"

text \<open>
  \<open>generateAIImage\<close>. The environment is explicit: \<open>apiKey\<close> is
  \<open>import.meta.env.VITE_GEMINI_API_KEY\<close>, \<open>service\<close> is the remote call
  \<open>ai.models.generateContent\<close>, which resolves with a response or rejects with a
  thrown value. The third argument is optional in the source and
  defaults to \<open>"9:16"\<close>. The result pairs the returned or thrown value with the list
  of requests sent to the service, in order.
\<close>

definition generateAIImage ::
  "string option \<Rightarrow> (generate_request \<Rightarrow> ('e thrown, generate_response) outcome) \<Rightarrow>
   string \<Rightarrow> string \<Rightarrow> aspect_ratio option \<Rightarrow>
   ('e thrown + string) \<times> generate_request list" where
  "generateAIImage apiKey service base64Source prompt aspectRatioArg =
     (let aspectRatio = (case aspectRatioArg of None \<Rightarrow> R9_16 | Some a \<Rightarrow> a) in
      if \<not> truthy apiKey then (Inl MissingCredential, [])
      else
        (let request = build_request base64Source prompt aspectRatio in
         case service request of
           Rejects e \<Rightarrow> (Inl e, [request])
         | Resolves response \<Rightarrow> (select_image response, [request])))"

subsection \<open>The selection rule in the specification's words\<close>

text \<open>
  The image a candidate carries: the first image-bearing part of its content, if it
  has any.
\<close>

definition candidate_image :: "candidate \<Rightarrow> string option" where
  "candidate_image c =
     (case content c of
        None \<Rightarrow> None
      | Some ct \<Rightarrow> (case parts ct of None \<Rightarrow> None | Some ps \<Rightarrow> first_image ps))"

text \<open>
  Written from the specification, not from the source: "select the first candidate
  containing image data and ignore text-only candidates".
\<close>

fun spec_first_candidate_image :: "candidate list \<Rightarrow> string option" where
  "spec_first_candidate_image [] = None"
| "spec_first_candidate_image (c # cs) =
     (case candidate_image c of
        Some d \<Rightarrow> Some d
      | None \<Rightarrow> spec_first_candidate_image cs)"

text \<open>Two shapes of candidate used in the examples: one text part, one image part.\<close>

definition text_candidate :: "string \<Rightarrow> candidate" where
  "text_candidate t =
     \<lparr> content = Some \<lparr> parts = Some [\<lparr> inlineData = None, part_text = Some t \<rparr>] \<rparr> \<rparr>"

definition image_candidate :: "string \<Rightarrow> candidate" where
  "image_candidate d =
     \<lparr> content = Some \<lparr> parts = Some
         [\<lparr> inlineData = Some \<lparr> data = Some d \<rparr>, part_text = None \<rparr>] \<rparr> \<rparr>"

section \<open>Capture engine (src/pages/CameraPage.tsx)\<close>

datatype orientation = portrait | landscape

definition isPortrait :: "orientation \<Rightarrow> bool" where
  "isPortrait ori = (ori = portrait)"

definition targetWidth :: "orientation \<Rightarrow> nat" where
  "targetWidth ori = (if isPortrait ori then 768 else 1344)"

definition targetHeight :: "orientation \<Rightarrow> nat" where
  "targetHeight ori = (if isPortrait ori then 1344 else 768)"

definition aspectRatioClass :: "orientation \<Rightarrow> string" where
  "aspectRatioClass ori = (if isPortrait ori then ''aspect-[9/16]'' else ''aspect-[16/9]'')"

text \<open>The video element, as far as \<open>capture\<close> reads it: the native size of the feed.\<close>

record video_element =
  videoWidth :: nat
  videoHeight :: nat

text \<open>The arguments of the one \<open>ctx.drawImage\<close> call of \<open>capture\<close>.\<close>

record draw_image =
  sourceX :: real
  sourceY :: real
  sourceWidth :: real
  sourceHeight :: real
  destX :: real
  destY :: real
  destWidth :: nat
  destHeight :: nat

text \<open>
  The still frame: the canvas after \<open>capture\<close> has sized it and drawn on it, and the
  arguments of \<open>canvas.toDataURL\<close> that encode it.
\<close>

record frame =
  canvas_width :: nat
  canvas_height :: nat
  drawn :: draw_image
  encoding :: string
  quality :: real

text \<open>
  JavaScript numbers are modelled as reals. The one place where the source can divide
  by zero inside a comparison is \<open>videoRatio > targetRatio\<close>: for a zero
  \<open>videoHeight\<close> the quotient is \<open>Infinity\<close> (greater than every ratio) when the width
  is positive and \<open>NaN\<close> (every comparison false) when it is zero.
\<close>

definition videoRatio_exceeds :: "video_element \<Rightarrow> real \<Rightarrow> bool" where
  "videoRatio_exceeds video targetRatio =
     (if videoHeight video = 0 then 0 < videoWidth video
      else targetRatio < real (videoWidth video) / real (videoHeight video))"

text \<open>
  \<open>capture\<close>, lines 44 to 76. \<open>videoRef\<close> is \<open>videoRef.current\<close>, \<open>canvasRef\<close> says
  whether \<open>canvasRef.current\<close> is set, \<open>ctx\<close> whether \<open>getContext('2d')\<close> returns a
  context. The result is the frame handed to \<open>onCapture\<close> (after which \<open>onGenerate\<close>
  is called), or \<open>None\<close> when a guard fails and nothing happens.
\<close>

definition capture :: "orientation \<Rightarrow> video_element option \<Rightarrow> bool \<Rightarrow> bool \<Rightarrow> frame option" where
  "capture ori videoRef canvasRef ctx =
     (case videoRef of
        None \<Rightarrow> None
      | Some video \<Rightarrow>
          if \<not> canvasRef then None
          else if \<not> ctx then None
          else
            (let targetRatio = real (targetWidth ori) / real (targetHeight ori);
                 d = (if videoRatio_exceeds video targetRatio
                      then (let sw = real (videoHeight video) * targetRatio in
                            \<lparr> sourceX = (real (videoWidth video) - sw) / 2, sourceY = 0,
                              sourceWidth = sw, sourceHeight = real (videoHeight video),
                              destX = 0, destY = 0,
                              destWidth = targetWidth ori, destHeight = targetHeight ori \<rparr>)
                      else (let sh = real (videoWidth video) / targetRatio in
                            \<lparr> sourceX = 0, sourceY = (real (videoHeight video) - sh) / 2,
                              sourceWidth = real (videoWidth video), sourceHeight = sh,
                              destX = 0, destY = 0,
                              destWidth = targetWidth ori, destHeight = targetHeight ori \<rparr>))
             in Some \<lparr> canvas_width = targetWidth ori, canvas_height = targetHeight ori,
                       drawn = d, encoding = ''image/jpeg'', quality = 85 / 100 \<rparr>))"

subsection \<open>The camera screen as a transition system\<close>

text \<open>
  The component between its mount and after its unmount. Its props \<open>orientation\<close> and
  \<open>capturedImage\<close> are fixed for that time (the parent component is not part of the
  sources), so the effect of lines 24 to 42, whose dependencies are \<open>targetWidth\<close> and
  \<open>targetHeight\<close>, runs once, at mount, and its cleanup runs once, at unmount.

  A media stream is named by a number; \<open>live_streams\<close> holds the streams granted to
  this component whose tracks have not been stopped. \<open>cleanup_stream\<close> is the value of
  the variable \<open>stream\<close> in the closure of the effect's cleanup function: the state
  \<open>stream\<close> of the render in which the effect ran. \<open>pending\<close> counts the calls of
  \<open>getUserMedia\<close> that have not settled, \<open>intervals\<close> the timers set by
  \<open>setInterval\<close> and not cleared, and \<open>emitted\<close> lists the calls of the props
  \<open>onCapture\<close>, \<open>onGenerate\<close> and \<open>onBack\<close>, in order.
\<close>

record media_stream =
  stream_id :: nat
  native :: video_element

datatype callback = OnCapture frame | OnGenerate | OnBack

record camera_page =
  orientation_prop :: orientation
  capturedImage :: "frame option"
  context2d :: bool
  mounted :: bool
  video :: "video_element option"
  stream :: "nat option"
  cleanup_stream :: "nat option"
  pending :: nat
  live_streams :: "nat set"
  countdown :: "nat option"
  intervals :: nat
  emitted :: "callback list"

text \<open>
  First render and effect. The video element is rendered only while \<open>capturedImage\<close>
  is null, and has no size before it is given a stream. The effect calls
  \<open>setupCamera\<close> and returns the cleanup, which closes over \<open>stream\<close> of this first
  render: the initial state \<open>null\<close>.
\<close>

definition mount :: "orientation \<Rightarrow> frame option \<Rightarrow> bool \<Rightarrow> camera_page" where
  "mount ori ci ctx =
     (let stream0 = None in
      \<lparr> orientation_prop = ori, capturedImage = ci, context2d = ctx, mounted = True,
        video = (if ci = None then Some \<lparr> videoWidth = 0, videoHeight = 0 \<rparr> else None),
        stream = stream0, cleanup_stream = stream0, pending = 1, live_streams = {},
        countdown = None, intervals = 0, emitted = [] \<rparr>)"

datatype camera_event =
    CameraGranted media_stream
  | CameraDenied
  | ClickCapture
  | Tick
  | ClickBack
  | Unmount

text \<open>\<open>getUserMedia\<close> resolves: \<open>setStream(mediaStream)\<close>, and the video element, if
  there is one, gets the stream as its \<open>srcObject\<close>. The cleanup closure is not
  rebuilt: the effect does not run again.\<close>

definition camera_granted :: "media_stream \<Rightarrow> camera_page \<Rightarrow> camera_page" where
  "camera_granted ms s =
     (if pending s = 0 then s
      else s \<lparr> pending := pending s - 1,
               live_streams := insert (stream_id ms) (live_streams s),
               stream := (if mounted s then Some (stream_id ms) else stream s),
               video := map_option (\<lambda>v. native ms) (video s) \<rparr>)"

text \<open>\<open>getUserMedia\<close> rejects: the \<open>catch\<close> logs and nothing else happens.\<close>

definition camera_denied :: "camera_page \<Rightarrow> camera_page" where
  "camera_denied s = (if pending s = 0 then s else s \<lparr> pending := pending s - 1 \<rparr>)"

text \<open>Truthiness of the state \<open>countdown\<close>: \<open>null\<close> and \<open>0\<close> are falsy.\<close>

fun counting :: "nat option \<Rightarrow> bool" where
  "counting None = False"
| "counting (Some n) = (n \<noteq> 0)"

text \<open>The shutter button is rendered while there is no captured image and no
  countdown; clicking it runs \<open>startCountdown\<close>.\<close>

definition startCountdown :: "camera_page \<Rightarrow> camera_page" where
  "startCountdown s = s \<lparr> countdown := Some 3, intervals := intervals s + 1 \<rparr>"

definition click_capture :: "camera_page \<Rightarrow> camera_page" where
  "click_capture s =
     (if mounted s \<and> capturedImage s = None \<and> \<not> counting (countdown s)
      then startCountdown s else s)"

text \<open>The call \<open>capture()\<close> inside the timer callback, with its two callbacks.\<close>

definition run_capture :: "camera_page \<Rightarrow> camera_page" where
  "run_capture s =
     (case capture (orientation_prop s) (video s) (mounted s) (context2d s) of
        None \<Rightarrow> s
      | Some f \<Rightarrow> s \<lparr> emitted := emitted s @ [OnCapture f, OnGenerate] \<rparr>)"

text \<open>
  One firing of the timer: the updater passed to \<open>setCountdown\<close>, lines 81 to 88.
  A timer fires only while it is set. The unmount does not clear it, so it goes on
  firing afterwards: \<open>capture\<close> then finds no video element, and the firing at
  count 1 clears the timer as before.
\<close>

definition tick :: "camera_page \<Rightarrow> camera_page" where
  "tick s =
     (if intervals s = 0 then s
      else if countdown s = Some 1
      then (run_capture (s \<lparr> intervals := intervals s - 1 \<rparr>)) \<lparr> countdown := None \<rparr>
      else s \<lparr> countdown :=
                 (case countdown s of
                    None \<Rightarrow> None
                  | Some prev \<Rightarrow> if prev \<noteq> 0 then Some (prev - 1) else None) \<rparr>)"

text \<open>The BACK button: \<open>onClick={onBack}\<close>.\<close>

definition click_back :: "camera_page \<Rightarrow> camera_page" where
  "click_back s = (if mounted s then s \<lparr> emitted := emitted s @ [OnBack] \<rparr> else s)"

text \<open>
  Unmount: the refs are reset and the cleanup of the effect runs,
  \<open>stream?.getTracks().forEach(track => track.stop())\<close>, on the \<open>stream\<close> of its closure.
\<close>

definition unmount :: "camera_page \<Rightarrow> camera_page" where
  "unmount s =
     (if \<not> mounted s then s
      else s \<lparr> mounted := False, video := None,
               live_streams :=
                 (case cleanup_stream s of
                    None \<Rightarrow> live_streams s
                  | Some i \<Rightarrow> live_streams s - {i}) \<rparr>)"

fun step :: "camera_event \<Rightarrow> camera_page \<Rightarrow> camera_page" where
  "step (CameraGranted ms) s = camera_granted ms s"
| "step CameraDenied s = camera_denied s"
| "step ClickCapture s = click_capture s"
| "step Tick s = tick s"
| "step ClickBack s = click_back s"
| "step Unmount s = unmount s"

fun run :: "camera_event list \<Rightarrow> camera_page \<Rightarrow> camera_page" where
  "run [] s = s"
| "run (e # es) s = run es (step e s)"

text \<open>A stream used in the examples: number 7, a 1280 by 720 feed.\<close>

definition granted_720p :: media_stream where
  "granted_720p = \<lparr> stream_id = 7, native = \<lparr> videoWidth = 1280, videoHeight = 720 \<rparr> \<rparr>"

section \<open>Administration screen (src/pages/AdminPage.tsx)\<close>

record Concept =
  concept_id :: string
  name :: string
  prompt :: string
  thumbnail :: string

record PhotoboothSettings =
  eventName :: string
  eventDescription :: string
  folderId :: string
  overlayImage :: "string option"
  backgroundImage :: "string option"
  autoResetTime :: int
  adminPin :: string
  orientation :: orientation
  activeEventId :: "string option"

record admin_props =
  settings :: PhotoboothSettings
  concepts :: "Concept list"

datatype tab = settings_tab | concepts_tab

text \<open>The component's state: one field for each \<open>useState\<close>.\<close>

record admin_page =
  isAuthenticated :: bool
  pin :: string
  localSettings :: PhotoboothSettings
  localConcepts :: "Concept list"
  gasUrl :: string
  activeTab :: tab
  isUploading :: bool

text \<open>
  What a handler does outside the component's state, in order: alerts, writes to
  \<open>localStorage\<close>, calls of the remote store (\<open>saveSettingsToGas\<close>,
  \<open>saveConceptsToGas\<close>, with their arguments) and calls of the props \<open>onSaveSettings\<close>
  and \<open>onSaveConcepts\<close>, which commit to the application's settings and concepts.
\<close>

datatype admin_effect =
    Alert string
  | SetItem string string
  | SaveSettingsToGas PhotoboothSettings string
  | SaveConceptsToGas "Concept list" string
  | OnSaveSettings PhotoboothSettings
  | OnSaveConcepts "Concept list"

record admin_world =
  page :: admin_page
  localStorage :: "string \<rightharpoonup> string"
  trace :: "admin_effect list"

text \<open>The initial values of the \<open>useState\<close> calls, lines 20 to 26.\<close>

definition initial_page :: "admin_props \<Rightarrow> admin_page" where
  "initial_page props =
     \<lparr> isAuthenticated = False, pin = [], localSettings = settings props,
       localConcepts = concepts props, gasUrl = [], activeTab = settings_tab,
       isUploading = False \<rparr>"

text \<open>
  Mounting the screen: the initial state, then the effect of lines 30 to 33, which
  reads the cached base URL, falling back to the default when the stored value is
  missing or empty (\<open>DEFAULT_GAS_URL\<close>, a constant of a file that is not among the
  sources, is a parameter).
\<close>

definition admin_mount :: "string \<Rightarrow> admin_props \<Rightarrow> (string \<rightharpoonup> string) \<Rightarrow> admin_world" where
  "admin_mount DEFAULT_GAS_URL props storage =
     (let savedUrl = (case storage ''APPS_SCRIPT_BASE_URL'' of
                        None \<Rightarrow> DEFAULT_GAS_URL
                      | Some u \<Rightarrow> if u \<noteq> [] then u else DEFAULT_GAS_URL)
      in \<lparr> page = (initial_page props) \<lparr> gasUrl := savedUrl \<rparr>,
           localStorage = storage, trace = [] \<rparr>)"

text \<open>\<open>handleLogin\<close>, lines 35 to 42.\<close>

definition handleLogin :: "admin_props \<Rightarrow> admin_world \<Rightarrow> admin_world" where
  "handleLogin props w =
     (if pin (page w) = adminPin (settings props)
      then w \<lparr> page := (page w) \<lparr> isAuthenticated := True \<rparr> \<rparr>
      else w \<lparr> page := (page w) \<lparr> pin := [] \<rparr>,
               trace := trace w @ [Alert ''INVALID SECURITY PIN''] \<rparr>)"

text \<open>
  \<open>handleSaveSettings\<close>, lines 44 to 51. \<open>saveSettingsToGas\<close> belongs to a file that
  is not among the sources; it is a parameter, giving what the awaited promise
  settles with. A rejection ends the handler at the \<open>await\<close>.
\<close>

definition handleSaveSettings ::
  "admin_props \<Rightarrow> (PhotoboothSettings \<Rightarrow> string \<Rightarrow> ('e, bool) outcome) \<Rightarrow>
   admin_world \<Rightarrow> admin_world" where
  "handleSaveSettings props saveSettingsToGas w =
     (let w1 = w \<lparr> localStorage := (localStorage w)(''APPS_SCRIPT_BASE_URL'' \<mapsto> gasUrl (page w)),
                   trace := trace w @ [SetItem ''APPS_SCRIPT_BASE_URL'' (gasUrl (page w))] \<rparr>;
          w2 = w1 \<lparr> trace := trace w1 @
                      [SaveSettingsToGas (localSettings (page w)) (adminPin (settings props))] \<rparr>
      in case saveSettingsToGas (localSettings (page w)) (adminPin (settings props)) of
           Rejects e \<Rightarrow> w2
         | Resolves ok \<Rightarrow>
             if ok
             then w2 \<lparr> trace := trace w2 @
                         [OnSaveSettings (localSettings (page w)),
                          Alert ''Settings saved and synced to cloud''] \<rparr>
             else w2)"

text \<open>The click handler of SYNC ALL CONCEPTS, lines 222 to 225.\<close>

definition syncConcepts ::
  "admin_props \<Rightarrow> (Concept list \<Rightarrow> string \<Rightarrow> ('e, bool) outcome) \<Rightarrow>
   admin_world \<Rightarrow> admin_world" where
  "syncConcepts props saveConceptsToGas w =
     (let w1 = w \<lparr> trace := trace w @
                     [SaveConceptsToGas (localConcepts (page w)) (adminPin (settings props))] \<rparr>
      in case saveConceptsToGas (localConcepts (page w)) (adminPin (settings props)) of
           Rejects e \<Rightarrow> w1
         | Resolves ok \<Rightarrow>
             if ok
             then w1 \<lparr> trace := trace w1 @
                         [OnSaveConcepts (localConcepts (page w)),
                          Alert ''Concepts updated on cloud''] \<rparr>
             else w1)"

text \<open>The effects that commit settings or concepts to the application.\<close>

fun commits :: "admin_effect \<Rightarrow> bool" where
  "commits (OnSaveSettings s) = True"
| "commits (OnSaveConcepts c) = True"
| "commits e = False"

text \<open>Settings and props used in the examples: the configured PIN is 1234.\<close>

definition demo_settings :: PhotoboothSettings where
  "demo_settings =
     \<lparr> eventName = ''CORO AI PHOTOBOOTH'', eventDescription = ''Transform Your Reality'',
       folderId = ''folder'', overlayImage = None, backgroundImage = None,
       autoResetTime = 60, adminPin = ''1234'', orientation = portrait,
       activeEventId = None \<rparr>"

definition demo_props :: admin_props where
  "demo_props =
     \<lparr> settings = demo_settings,
       concepts = [\<lparr> concept_id = ''c1'', name = ''Cyberpunk'',
                     prompt = ''cyberpunk portrait'', thumbnail = ''thumb'' \<rparr>] \<rparr>"

text \<open>
  An authenticated screen with edits that have not been saved: the event name, the
  PIN and a concept's name differ from the props, and the base URL has been retyped.
\<close>

definition edited_world :: admin_world where
  "edited_world =
     \<lparr> page =
         \<lparr> isAuthenticated = True, pin = ''1234'',
           localSettings = demo_settings \<lparr> eventName := ''Gala Night'', adminPin := ''9999'' \<rparr>,
           localConcepts = [\<lparr> concept_id = ''c1'', name = ''Film Noir'',
                               prompt = ''black and white film noir portrait'',
                               thumbnail = ''thumb'' \<rparr>],
           gasUrl = ''https://new'', activeTab = concepts_tab, isUploading = False \<rparr>,
       localStorage = [''APPS_SCRIPT_BASE_URL'' \<mapsto> ''https://gas''],
       trace = [] \<rparr>"

section \<open>Properties of the generation adapter\<close>

lemma truthy_iff: "truthy x \<longleftrightarrow> (\<exists>s. x = Some s \<and> s \<noteq> [])"
  by (cases x) simp_all

lemma first_image_None_iff:
  "first_image ps = None \<longleftrightarrow> (\<forall>x\<in>set ps. \<not> truthy (part_image x))"
  by (induction ps) (auto simp: truthy_iff)

lemma first_image_skip:
  "\<forall>x\<in>set pre. \<not> truthy (part_image x) \<Longrightarrow> truthy (part_image q) \<Longrightarrow>
   first_image (pre @ q # post) = part_image q"
  by (induction pre) auto

lemma errors_distinct: "(MissingCredential :: 'e thrown) \<noteq> NoImageReturned"
  by (simp add: MissingCredential_def NoImageReturned_def)

lemma select_image_not_missing: "select_image r \<noteq> Inl MissingCredential"
  by (auto simp: select_image_def MissingCredential_def NoImageReturned_def
      split: option.splits list.splits)

lemma build_request_mimeType: "mimeType (build_request src txt ar) = ''image/png''"
  by (simp add: build_request_def)

lemma requests_sent:
  "snd (generateAIImage apiKey service src txt ar) =
     (if truthy apiKey
      then [build_request src txt (case ar of None \<Rightarrow> R9_16 | Some a \<Rightarrow> a)] else [])"
  by (simp add: generateAIImage_def Let_def split: outcome.splits)

lemma select_image_prefix:
  "select_image r = Inr img \<Longrightarrow> prefix ''data:image/png;base64,'' img"
  by (auto simp: select_image_def split: option.splits list.splits)

lemma result_cases:
  "fst (generateAIImage apiKey service src txt ar) =
     (if \<not> truthy apiKey then Inl MissingCredential
      else case service (build_request src txt (case ar of None \<Rightarrow> R9_16 | Some a \<Rightarrow> a)) of
             Rejects e \<Rightarrow> Inl e
           | Resolves response \<Rightarrow> select_image response)"
  by (simp add: generateAIImage_def Let_def split: outcome.splits)

lemma capture_encoding:
  "capture ori videoRef canvasRef ctx = Some f \<Longrightarrow> encoding f = ''image/jpeg''"
  by (auto simp: capture_def Let_def split: option.splits if_splits)

lemma select_image_NoImage_iff:
  "select_image response = (Inl NoImageReturned :: 'e thrown + string) \<longleftrightarrow>
     (candidates response = None \<or> candidates response = Some [] \<or>
      (\<exists>c0 rest ct ps. candidates response = Some (c0 # rest) \<and> content c0 = Some ct \<and>
          parts ct = Some ps \<and> (\<forall>x\<in>set ps. \<not> truthy (part_image x))))"
proof (cases "candidates response")
  case None
  then show ?thesis by (simp add: select_image_def)
next
  case (Some cs)
  show ?thesis
  proof (cases cs)
    case Nil
    with Some show ?thesis by (simp add: select_image_def)
  next
    case (Cons c0 rest)
    show ?thesis
    proof (cases "content c0")
      case None
      with Some Cons show ?thesis by (simp add: select_image_def NoImageReturned_def)
    next
      case ct: (Some ct)
      show ?thesis
      proof (cases "parts ct")
        case None
        with Some Cons ct show ?thesis by (simp add: select_image_def NoImageReturned_def)
      next
        case ps: (Some ps)
        show ?thesis
        proof (cases "first_image ps")
          case None
          with Some Cons ct ps show ?thesis
            by (simp add: select_image_def first_image_None_iff [symmetric])
        next
          case d: (Some d)
          with Some Cons ct ps show ?thesis
            by (simp add: select_image_def first_image_None_iff [symmetric])
        qed
      qed
    qed
  qed
qed

text \<open>
  Claim C1, as stated: the adapter returns the image of the first candidate, in the
  order of the candidate list, that carries image data, ignoring text-only candidates.
  The source reads \<open>candidates[0]\<close> only. With a text-only first candidate and an
  image-bearing second one, the specification's rule selects the image and the
  adapter fails with "No image data returned from Gemini".
\<close>

theorem later_candidate_counterexample:
  "spec_first_candidate_image [text_candidate ''a sketch'', image_candidate ''QUJD'']
     = Some ''QUJD'' \<and>
   fst (generateAIImage (Some ''key'')
          (\<lambda>r. Resolves \<lparr> candidates = Some [text_candidate ''a sketch'', image_candidate ''QUJD''] \<rparr>)
          ''data:image/jpeg;base64,AAAA'' ''neon city'' None)
     = (Inl NoImageReturned :: unit thrown + string)"
  by (simp add: result_cases select_image_def candidate_image_def text_candidate_def
      image_candidate_def part_image_def)

text \<open>
  Claim C1, amended: only the first candidate counts. Take a credential, a service
  that answers, and a response whose candidate list is not empty and whose first
  candidate has a content with a list of parts \<open>ps\<close>. If \<open>q\<close> is the first part of
  \<open>ps\<close> that carries non-empty inline data \<open>d\<close>, the adapter returns
  \<open>data:image/png;base64,\<close> followed by \<open>d\<close>; if no part of \<open>ps\<close> carries image data
  the adapter fails with the no-image error. The candidates after the first
  (\<open>rest\<close>) have no influence. A first candidate without content or without parts is
  outside this statement.
\<close>

theorem generateAIImage_first_candidate:
  assumes "truthy apiKey"
    and "service (build_request src txt (case ar of None \<Rightarrow> R9_16 | Some a \<Rightarrow> a)) = Resolves response"
    and "candidates response = Some (c0 # rest)"
    and "content c0 = Some ct"
    and "parts ct = Some ps"
  shows "(\<forall>pre q post d.
            ps = pre @ q # post \<and> (\<forall>x\<in>set pre. \<not> truthy (part_image x)) \<and>
            part_image q = Some d \<and> d \<noteq> []
            \<longrightarrow> fst (generateAIImage apiKey service src txt ar)
                  = Inr (''data:image/png;base64,'' @ d)) \<and>
         ((\<forall>x\<in>set ps. \<not> truthy (part_image x))
            \<longrightarrow> fst (generateAIImage apiKey service src txt ar) = Inl NoImageReturned)"
proof -
  have res: "fst (generateAIImage apiKey service src txt ar) =
        (case first_image ps of
           Some d \<Rightarrow> Inr (''data:image/png;base64,'' @ d)
         | None \<Rightarrow> Inl NoImageReturned)"
    using assms by (simp add: result_cases select_image_def)
  have a: "fst (generateAIImage apiKey service src txt ar) = Inr (''data:image/png;base64,'' @ d)"
    if "ps = pre @ q # post" "\<forall>x\<in>set pre. \<not> truthy (part_image x)"
       "part_image q = Some d" "d \<noteq> []"
    for pre q post d
  proof -
    have "truthy (part_image q)" using that(3,4) by simp
    then have "first_image ps = Some d"
      using that(1,2,3) first_image_skip [of pre q post] by simp
    then show ?thesis by (simp add: res)
  qed
  have b: "fst (generateAIImage apiKey service src txt ar) = Inl NoImageReturned"
    if "\<forall>x\<in>set ps. \<not> truthy (part_image x)"
  proof -
    have "first_image ps = None" using that by (simp add: first_image_None_iff)
    then show ?thesis by (simp add: res)
  qed
  show ?thesis using a b by blast
qed

theorem generateAIImage_first_candidate_witness:
  "fst (generateAIImage (Some ''key'')
          (\<lambda>r. Resolves \<lparr> candidates = Some [\<lparr> content = Some \<lparr> parts = Some
               [\<lparr> inlineData = None, part_text = Some ''here it is'' \<rparr>,
                \<lparr> inlineData = Some \<lparr> data = Some ''QUJD'' \<rparr>, part_text = None \<rparr>,
                \<lparr> inlineData = Some \<lparr> data = Some ''REVG'' \<rparr>, part_text = None \<rparr>] \<rparr> \<rparr>,
              image_candidate ''R0hJ''] \<rparr>)
          ''data:image/jpeg;base64,AAAA'' ''neon city'' (Some R16_9))
     = (Inr ''data:image/png;base64,QUJD'' :: unit thrown + string) \<and>
   fst (generateAIImage (Some ''key'')
          (\<lambda>r. Resolves \<lparr> candidates = Some [text_candidate ''no luck'', image_candidate ''R0hJ''] \<rparr>)
          ''data:image/jpeg;base64,AAAA'' ''neon city'' None)
     = (Inl NoImageReturned :: unit thrown + string)"
proof -
  let ?t = "\<lparr> inlineData = None, part_text = Some ''here it is'' \<rparr>"
  let ?i1 = "\<lparr> inlineData = Some \<lparr> data = Some ''QUJD'' \<rparr>, part_text = None \<rparr>"
  let ?i2 = "\<lparr> inlineData = Some \<lparr> data = Some ''REVG'' \<rparr>, part_text = None \<rparr>"
  let ?ct = "\<lparr> parts = Some [?t, ?i1, ?i2] \<rparr>"
  let ?r1 = "\<lparr> candidates = Some [\<lparr> content = Some ?ct \<rparr>, image_candidate ''R0hJ''] \<rparr>"
  let ?t2 = "\<lparr> inlineData = None, part_text = Some ''no luck'' \<rparr>"
  let ?r2 = "\<lparr> candidates = Some [text_candidate ''no luck'', image_candidate ''R0hJ''] \<rparr>"
  have k: "truthy (Some ''key'')" by simp
  have s1: "(\<lambda>r. Resolves ?r1 :: (unit thrown, generate_response) outcome)
              (build_request ''data:image/jpeg;base64,AAAA'' ''neon city''
                 (case Some R16_9 of None \<Rightarrow> R9_16 | Some a \<Rightarrow> a)) = Resolves ?r1"
    by simp
  have s2: "(\<lambda>r. Resolves ?r2 :: (unit thrown, generate_response) outcome)
              (build_request ''data:image/jpeg;base64,AAAA'' ''neon city''
                 (case None of None \<Rightarrow> R9_16 | Some a \<Rightarrow> a)) = Resolves ?r2"
    by simp
  have c1: "candidates ?r1 = Some (\<lparr> content = Some ?ct \<rparr> # [image_candidate ''R0hJ''])"
    by simp
  have c2: "candidates ?r2 = Some (text_candidate ''no luck'' # [image_candidate ''R0hJ''])"
    by simp
  have ct1: "content \<lparr> content = Some ?ct \<rparr> = Some ?ct" by simp
  have ct2: "content (text_candidate ''no luck'') = Some \<lparr> parts = Some [?t2] \<rparr>"
    by (simp add: text_candidate_def)
  have p1: "parts ?ct = Some [?t, ?i1, ?i2]" by simp
  have p2: "parts \<lparr> parts = Some [?t2] \<rparr> = Some [?t2]" by simp
  note T1 = generateAIImage_first_candidate [OF k s1 c1 ct1 p1]
  note T2 = generateAIImage_first_candidate [OF k s2 c2 ct2 p2]
  have 1: "fst (generateAIImage (Some ''key'') (\<lambda>r. Resolves ?r1)
              ''data:image/jpeg;base64,AAAA'' ''neon city'' (Some R16_9))
           = (Inr (''data:image/png;base64,'' @ ''QUJD'') :: unit thrown + string)"
    using T1 [THEN conjunct1, rule_format, of "[?t]" ?i1 "[?i2]" "''QUJD''"]
    by (simp add: part_image_def)
  have 2: "fst (generateAIImage (Some ''key'') (\<lambda>r. Resolves ?r2)
              ''data:image/jpeg;base64,AAAA'' ''neon city'' None)
           = (Inl NoImageReturned :: unit thrown + string)"
    using T2 [THEN conjunct2] by (simp add: part_image_def)
  show ?thesis using 1 2 by simp
qed

text \<open>
  Claim C5, as stated, second half: the no-image error is raised exactly when the
  response contains no image-bearing candidate. Here the response contains one (the
  second candidate) and the adapter still fails with the no-image error.
\<close>

theorem no_image_kind_counterexample:
  "fst (generateAIImage (Some ''key'')
          (\<lambda>r. Resolves \<lparr> candidates = Some [text_candidate ''sorry'', image_candidate ''R0hJ''] \<rparr>)
          ''data:image/jpeg;base64,AAAA'' ''pirate'' (Some R16_9))
     = (Inl NoImageReturned :: unit thrown + string) \<and>
   candidate_image (image_candidate ''R0hJ'') = Some ''R0hJ''"
  by (simp add: result_cases select_image_def candidate_image_def text_candidate_def
      image_candidate_def part_image_def)

text \<open>
  Claim C5, amended. Whenever the credential is absent (undefined or empty) the
  adapter fails with the missing-credential error and has sent no request; with a
  credential it ends with that error only if the service client itself rejects with
  an equal one, since a rejection is rethrown as it is. When the service answers
  and the first candidate, if there is one, has a content with a list of parts, the
  adapter fails with the no-image error exactly when the response has no candidate
  list, an empty one, or a first candidate none of whose parts carries image data;
  later candidates are not inspected, and a first candidate without content or
  parts is outside this statement. The two errors of the adapter are \<open>Error\<close>
  objects with different messages.
\<close>

theorem generateAIImage_error_kinds:
  fixes service :: "generate_request \<Rightarrow> ('e thrown, generate_response) outcome"
  shows
  "(\<not> truthy apiKey \<longrightarrow>
      generateAIImage apiKey service src txt ar = (Inl MissingCredential, [])) \<and>
   (fst (generateAIImage apiKey service src txt ar) = Inl MissingCredential \<longleftrightarrow>
      \<not> truthy apiKey \<or>
      service (build_request src txt (case ar of None \<Rightarrow> R9_16 | Some a \<Rightarrow> a))
        = Rejects MissingCredential) \<and>
   (\<forall>e. truthy apiKey \<and>
        service (build_request src txt (case ar of None \<Rightarrow> R9_16 | Some a \<Rightarrow> a)) = Rejects e
      \<longrightarrow> fst (generateAIImage apiKey service src txt ar) = Inl e) \<and>
   (\<forall>response.
      truthy apiKey \<and>
      service (build_request src txt (case ar of None \<Rightarrow> R9_16 | Some a \<Rightarrow> a))
        = Resolves response \<and>
      (\<forall>c0 rest. candidates response = Some (c0 # rest)
         \<longrightarrow> (\<exists>ct ps. content c0 = Some ct \<and> parts ct = Some ps))
      \<longrightarrow> (fst (generateAIImage apiKey service src txt ar) = Inl NoImageReturned \<longleftrightarrow>
             candidates response = None \<or> candidates response = Some [] \<or>
             (\<exists>c0 rest ct ps. candidates response = Some (c0 # rest) \<and> content c0 = Some ct \<and>
                parts ct = Some ps \<and> (\<forall>x\<in>set ps. \<not> truthy (part_image x))))) \<and>
   (MissingCredential :: 'e thrown) \<noteq> NoImageReturned"
proof (intro conjI allI impI)
  let ?req = "build_request src txt (case ar of None \<Rightarrow> R9_16 | Some a \<Rightarrow> a)"
  show "generateAIImage apiKey service src txt ar = (Inl MissingCredential, [])"
    if "\<not> truthy apiKey"
    using that by (simp add: prod_eq_iff result_cases requests_sent)
  show "fst (generateAIImage apiKey service src txt ar) = Inl MissingCredential \<longleftrightarrow>
          \<not> truthy apiKey \<or> service ?req = Rejects MissingCredential"
  proof (cases "service ?req")
    case (Resolves r)
    then show ?thesis by (simp add: result_cases select_image_not_missing)
  next
    case (Rejects e)
    then show ?thesis by (auto simp: result_cases)
  qed
  show "fst (generateAIImage apiKey service src txt ar) = Inl e"
    if "truthy apiKey \<and> service ?req = Rejects e" for e
    using that by (simp add: result_cases)
  show "fst (generateAIImage apiKey service src txt ar) = Inl NoImageReturned \<longleftrightarrow>
          candidates response = None \<or> candidates response = Some [] \<or>
          (\<exists>c0 rest ct ps. candidates response = Some (c0 # rest) \<and> content c0 = Some ct \<and>
             parts ct = Some ps \<and> (\<forall>x\<in>set ps. \<not> truthy (part_image x)))"
    if "truthy apiKey \<and> service ?req = Resolves response \<and>
        (\<forall>c0 rest. candidates response = Some (c0 # rest)
           \<longrightarrow> (\<exists>ct ps. content c0 = Some ct \<and> parts ct = Some ps))"
    for response
  proof -
    from that have "fst (generateAIImage apiKey service src txt ar) = select_image response"
      by (simp add: result_cases)
    then show ?thesis
      using select_image_NoImage_iff [of response, where 'e = 'e] by simp
  qed
  show "(MissingCredential :: 'e thrown) \<noteq> NoImageReturned" by (rule errors_distinct)
qed

theorem generateAIImage_error_kinds_witness:
  "generateAIImage None (\<lambda>r. Resolves \<lparr> candidates = Some [image_candidate ''QUJD''] \<rparr>)
      ''data:image/jpeg;base64,AAAA'' ''neon city'' None
     = (Inl MissingCredential :: unit thrown + string, []) \<and>
   fst (generateAIImage (Some ''key'') (\<lambda>r. Rejects (Error ''fetch failed''))
      ''data:image/jpeg;base64,AAAA'' ''neon city'' None)
     = (Inl (Error ''fetch failed'') :: unit thrown + string) \<and>
   fst (generateAIImage (Some ''key'')
      (\<lambda>r. Resolves \<lparr> candidates = Some [text_candidate ''no luck'', image_candidate ''R0hJ''] \<rparr>)
      ''data:image/jpeg;base64,AAAA'' ''neon city'' None)
     = (Inl NoImageReturned :: unit thrown + string) \<and>
   fst (generateAIImage (Some ''key'')
      (\<lambda>r. Resolves \<lparr> candidates = Some [image_candidate ''QUJD''] \<rparr>)
      ''data:image/jpeg;base64,AAAA'' ''neon city'' None)
     \<noteq> (Inl NoImageReturned :: unit thrown + string)"
proof -
  let ?img = "\<lparr> candidates = Some [image_candidate ''QUJD''] \<rparr>"
  let ?txt = "\<lparr> candidates = Some [text_candidate ''no luck'', image_candidate ''R0hJ''] \<rparr>"
  let ?s1 = "\<lambda>r :: generate_request. Resolves ?img :: (unit thrown, generate_response) outcome"
  let ?s2 = "\<lambda>r :: generate_request.
      Rejects (Error ''fetch failed'') :: (unit thrown, generate_response) outcome"
  let ?s3 = "\<lambda>r :: generate_request. Resolves ?txt :: (unit thrown, generate_response) outcome"
  let ?tp = "\<lparr> inlineData = None, part_text = Some ''no luck'' \<rparr>"
  let ?ip = "\<lparr> inlineData = Some \<lparr> data = Some ''QUJD'' \<rparr>, part_text = None \<rparr>"
  note T1 = generateAIImage_error_kinds
    [of None ?s1 "''data:image/jpeg;base64,AAAA''" "''neon city''" None]
  note T2 = generateAIImage_error_kinds
    [of "Some ''key''" ?s2 "''data:image/jpeg;base64,AAAA''" "''neon city''" None]
  note T3 = generateAIImage_error_kinds
    [of "Some ''key''" ?s3 "''data:image/jpeg;base64,AAAA''" "''neon city''" None]
  note T4 = generateAIImage_error_kinds
    [of "Some ''key''" ?s1 "''data:image/jpeg;base64,AAAA''" "''neon city''" None]
  have 1: "generateAIImage None ?s1 ''data:image/jpeg;base64,AAAA'' ''neon city'' None
             = (Inl MissingCredential, [])"
    using T1 [THEN conjunct1] by simp
  have 2: "fst (generateAIImage (Some ''key'') ?s2 ''data:image/jpeg;base64,AAAA'' ''neon city'' None)
             = Inl (Error ''fetch failed'')"
    using T2 [THEN conjunct2, THEN conjunct2, THEN conjunct1, rule_format,
        of "Error ''fetch failed''"]
    by simp
  have wf3: "\<forall>c0 rest. candidates ?txt = Some (c0 # rest)
               \<longrightarrow> (\<exists>ct ps. content c0 = Some ct \<and> parts ct = Some ps)"
    by (simp add: text_candidate_def)
  have wf4: "\<forall>c0 rest. candidates ?img = Some (c0 # rest)
               \<longrightarrow> (\<exists>ct ps. content c0 = Some ct \<and> parts ct = Some ps)"
    by (simp add: image_candidate_def)
  have no3: "\<exists>c0 rest ct ps. candidates ?txt = Some (c0 # rest) \<and> content c0 = Some ct \<and>
               parts ct = Some ps \<and> (\<forall>x\<in>set ps. \<not> truthy (part_image x))"
    by (simp add: text_candidate_def part_image_def)
  have yes4: "\<not> (candidates ?img = None \<or> candidates ?img = Some [] \<or>
               (\<exists>c0 rest ct ps. candidates ?img = Some (c0 # rest) \<and> content c0 = Some ct \<and>
                  parts ct = Some ps \<and> (\<forall>x\<in>set ps. \<not> truthy (part_image x))))"
    by (simp add: image_candidate_def part_image_def)
  have 3: "fst (generateAIImage (Some ''key'') ?s3 ''data:image/jpeg;base64,AAAA'' ''neon city'' None)
             = Inl NoImageReturned"
    using T3 [THEN conjunct2, THEN conjunct2, THEN conjunct2, THEN conjunct1, rule_format,
        of ?txt] wf3 no3
    by simp
  have 4: "fst (generateAIImage (Some ''key'') ?s1 ''data:image/jpeg;base64,AAAA'' ''neon city'' None)
             \<noteq> Inl NoImageReturned"
    using T4 [THEN conjunct2, THEN conjunct2, THEN conjunct2, THEN conjunct1, rule_format,
        of ?img] wf4 yes4
    by simp
  show ?thesis using 1 2 3 4 by blast
qed

text \<open>
  Claim C9: every request the adapter sends declares the frame as \<open>image/png\<close>, and
  every image it returns starts with \<open>data:image/png;base64,\<close>, whatever the input
  frame is; the frames that \<open>capture\<close> produces are encoded as \<open>image/jpeg\<close>.
\<close>

theorem generateAIImage_png:
  "(\<forall>r\<in>set (snd (generateAIImage apiKey service src txt ar)).
       mimeType r = ''image/png'') \<and>
   (\<forall>img. fst (generateAIImage apiKey service src txt ar) = Inr img
       \<longrightarrow> prefix ''data:image/png;base64,'' img) \<and>
   (\<forall>f. capture ori videoRef canvasRef ctx = Some f \<longrightarrow> encoding f = ''image/jpeg'')"
proof (intro conjI allI impI ballI)
  fix r assume "r \<in> set (snd (generateAIImage apiKey service src txt ar))"
  then show "mimeType r = ''image/png''"
    by (simp add: requests_sent build_request_mimeType split: if_splits)
next
  fix img assume "fst (generateAIImage apiKey service src txt ar) = Inr img"
  then show "prefix ''data:image/png;base64,'' img"
    by (auto simp: result_cases select_image_prefix split: if_splits outcome.splits)
next
  fix f assume "capture ori videoRef canvasRef ctx = Some f"
  then show "encoding f = ''image/jpeg''" by (rule capture_encoding)
qed

theorem generateAIImage_png_witness:
  "mimeType (build_request ''data:image/jpeg;base64,AAAA'' ''neon city'' R9_16) = ''image/png'' \<and>
   build_request ''data:image/jpeg;base64,AAAA'' ''neon city'' R9_16
     \<in> set (snd (generateAIImage (Some ''key'')
          (\<lambda>r. Resolves \<lparr> candidates = Some [image_candidate ''QUJD''] \<rparr> :: (unit thrown, generate_response) outcome)
          ''data:image/jpeg;base64,AAAA'' ''neon city'' None)) \<and>
   fst (generateAIImage (Some ''key'')
          (\<lambda>r. Resolves \<lparr> candidates = Some [image_candidate ''QUJD''] \<rparr> :: (unit thrown, generate_response) outcome)
          ''data:image/jpeg;base64,AAAA'' ''neon city'' None) = Inr ''data:image/png;base64,QUJD'' \<and>
   prefix ''data:image/png;base64,'' ''data:image/png;base64,QUJD'' \<and>
   capture portrait (Some \<lparr> videoWidth = 1280, videoHeight = 720 \<rparr>) True True \<noteq> None \<and>
   encoding (the (capture portrait (Some \<lparr> videoWidth = 1280, videoHeight = 720 \<rparr>) True True))
     = ''image/jpeg''"
proof -
  let ?svc = "\<lambda>r :: generate_request.
      Resolves \<lparr> candidates = Some [image_candidate ''QUJD''] \<rparr> :: (unit thrown, generate_response) outcome"
  let ?req = "build_request ''data:image/jpeg;base64,AAAA'' ''neon city'' R9_16"
  let ?v = "Some \<lparr> videoWidth = 1280, videoHeight = 720 \<rparr>"
  note T = generateAIImage_png
    [of "Some ''key''" ?svc "''data:image/jpeg;base64,AAAA''" "''neon city''" None
        portrait ?v True True]
  have sent: "?req \<in> set (snd (generateAIImage (Some ''key'') ?svc
                 ''data:image/jpeg;base64,AAAA'' ''neon city'' None))"
    by (simp add: requests_sent)
  have 1: "mimeType ?req = ''image/png''"
    using T [THEN conjunct1, rule_format, OF sent] .
  have res: "fst (generateAIImage (Some ''key'') ?svc
                 ''data:image/jpeg;base64,AAAA'' ''neon city'' None) = Inr ''data:image/png;base64,QUJD''"
    by (simp add: result_cases select_image_def image_candidate_def part_image_def)
  have 2: "prefix ''data:image/png;base64,'' ''data:image/png;base64,QUJD''"
    using T [THEN conjunct2, THEN conjunct1, rule_format, OF res] .
  have cap: "capture portrait ?v True True \<noteq> None"
    by (simp add: capture_def Let_def)
  then have cap': "capture portrait ?v True True = Some (the (capture portrait ?v True True))"
    by simp
  have 3: "encoding (the (capture portrait ?v True True)) = ''image/jpeg''"
    using T [THEN conjunct2, THEN conjunct2, rule_format, OF cap'] .
  show ?thesis using sent 1 res 2 cap 3 by blast
qed

section \<open>Properties of the capture engine\<close>

lemma crop_wide:
  fixes w h t :: real
  assumes "0 < h" "0 < t" "t < w / h"
  shows "h * t / h = t" "0 \<le> (w - h * t) / 2" "(w - h * t) / 2 + h * t \<le> w"
    "(w - h * t) / 2 + h * t / 2 = w / 2" "h * t < w"
proof -
  from assms have lt: "h * t < w" by (simp add: pos_less_divide_eq mult.commute)
  show "h * t / h = t" using assms by simp
  show "0 \<le> (w - h * t) / 2" using lt by simp
  show "(w - h * t) / 2 + h * t \<le> w" using lt by (simp add: field_simps)
  show "(w - h * t) / 2 + h * t / 2 = w / 2" by (simp add: field_simps)
  show "h * t < w" by (rule lt)
qed

lemma crop_tall:
  fixes w h t :: real
  assumes "0 < h" "0 < w" "0 < t" "\<not> t < w / h"
  shows "w / (w / t) = t" "0 \<le> (h - w / t) / 2" "(h - w / t) / 2 + w / t \<le> h"
    "(h - w / t) / 2 + w / t / 2 = h / 2" "w / t \<le> h"
proof -
  from assms have "w / h \<le> t" by simp
  then have "w \<le> t * h" using assms by (simp add: pos_divide_le_eq)
  then have le: "w / t \<le> h" using assms by (simp add: pos_divide_le_eq mult.commute)
  show "w / (w / t) = t" using assms by simp
  show "0 \<le> (h - w / t) / 2" using le by simp
  show "(h - w / t) / 2 + w / t \<le> h" using le by (simp add: field_simps)
  show "(h - w / t) / 2 + w / t / 2 = h / 2" by (simp add: field_simps)
  show "w / t \<le> h" by (rule le)
qed

lemma target_ratio_pos: "0 < real (targetWidth ori) / real (targetHeight ori)"
  by (simp add: targetWidth_def targetHeight_def)

text \<open>
  Claim C2: for a feed of positive native width \<open>w\<close> and height \<open>h\<close> (with the
  video element, the canvas and its 2D context in place) \<open>capture\<close> produces a frame
  whose canvas is exactly \<open>targetWidth\<close> by \<open>targetHeight\<close> pixels and is filled
  completely by the drawn region. The region is cut from the feed by comparing the
  feed's ratio with the target's: if the feed is wider, the full height and a narrower
  width are taken, otherwise the full width; in both cases the region has the target's
  ratio, lies inside the feed and is centred in it.
\<close>

theorem capture_matches_target:
  assumes "0 < w" and "0 < h"
  shows "\<exists>f. capture ori (Some \<lparr> videoWidth = w, videoHeight = h \<rparr>) True True = Some f \<and>
     canvas_width f = targetWidth ori \<and> canvas_height f = targetHeight ori \<and>
     destX (drawn f) = 0 \<and> destY (drawn f) = 0 \<and>
     destWidth (drawn f) = targetWidth ori \<and> destHeight (drawn f) = targetHeight ori \<and>
     sourceWidth (drawn f) / sourceHeight (drawn f)
       = real (targetWidth ori) / real (targetHeight ori) \<and>
     0 \<le> sourceX (drawn f) \<and> sourceX (drawn f) + sourceWidth (drawn f) \<le> real w \<and>
     0 \<le> sourceY (drawn f) \<and> sourceY (drawn f) + sourceHeight (drawn f) \<le> real h \<and>
     sourceX (drawn f) + sourceWidth (drawn f) / 2 = real w / 2 \<and>
     sourceY (drawn f) + sourceHeight (drawn f) / 2 = real h / 2 \<and>
     (if real (targetWidth ori) / real (targetHeight ori) < real w / real h
      then sourceHeight (drawn f) = real h \<and> sourceWidth (drawn f) < real w
      else sourceWidth (drawn f) = real w \<and> sourceHeight (drawn f) \<le> real h)"
proof -
  let ?t = "real (targetWidth ori) / real (targetHeight ori)"
  have t: "0 < ?t" by (rule target_ratio_pos)
  have w: "0 < real w" and h: "0 < real h" using assms by simp_all
  show ?thesis
  proof (cases "?t < real w / real h")
    case True
    note c = crop_wide [OF h t True]
    show ?thesis using True assms c
      by (simp add: capture_def videoRatio_exceeds_def Let_def)
  next
    case False
    note c = crop_tall [OF h w t False]
    show ?thesis using False assms c
      by (simp add: capture_def videoRatio_exceeds_def Let_def)
  qed
qed

lemma capture_720p:
  "capture portrait (Some \<lparr> videoWidth = 1280, videoHeight = 720 \<rparr>) True True =
     Some \<lparr> canvas_width = 768, canvas_height = 1344,
            drawn = \<lparr> sourceX = 3040 / 7, sourceY = 0, sourceWidth = 2880 / 7,
                      sourceHeight = 720, destX = 0, destY = 0,
                      destWidth = 768, destHeight = 1344 \<rparr>,
            encoding = ''image/jpeg'', quality = 85 / 100 \<rparr>"
  by (simp add: capture_def videoRatio_exceeds_def targetWidth_def targetHeight_def
      isPortrait_def Let_def)

theorem capture_matches_target_witness:
  "(0::nat) < 1280 \<and> (0::nat) < 720 \<and>
   (\<exists>f. capture portrait (Some \<lparr> videoWidth = 1280, videoHeight = 720 \<rparr>) True True = Some f \<and>
        canvas_width f = 768 \<and> canvas_height f = 1344 \<and>
        sourceWidth (drawn f) / sourceHeight (drawn f) = 768 / 1344)"
proof -
  have w: "(0::nat) < 1280" and h: "(0::nat) < 720" by simp_all
  from capture_matches_target [OF w h, of portrait]
  obtain f where "capture portrait (Some \<lparr> videoWidth = 1280, videoHeight = 720 \<rparr>) True True = Some f"
    and "canvas_width f = targetWidth portrait" and "canvas_height f = targetHeight portrait"
    and "sourceWidth (drawn f) / sourceHeight (drawn f)
           = real (targetWidth portrait) / real (targetHeight portrait)"
    by blast
  then show ?thesis using w h
    by (auto simp: targetWidth_def targetHeight_def isPortrait_def)
qed

text \<open>
  Claim C3, as stated: the target ratio is exactly 9:16 in portrait and exactly 16:9
  in landscape. The constants of lines 19 and 20 give neither.
\<close>

theorem target_ratio_counterexample:
  "real (targetWidth portrait) / real (targetHeight portrait) \<noteq> 9 / 16 \<and>
   real (targetWidth landscape) / real (targetHeight landscape) \<noteq> 16 / 9"
  by (simp add: targetWidth_def targetHeight_def isPortrait_def)

text \<open>
  Claim C3, amended: the target is a fixed size in pixels, 768 by 1344 in portrait
  and 1344 by 768 in landscape, so the target ratio is exactly 4:7 in portrait and
  exactly 7:4 in landscape, and every still frame that \<open>capture\<close> produces has that
  size and that ratio.
\<close>

theorem capture_target_ratio:
  "real (targetWidth ori) / real (targetHeight ori) = (if ori = portrait then 4 / 7 else 7 / 4) \<and>
   (\<forall>f. capture ori videoRef canvasRef ctx = Some f \<longrightarrow>
      canvas_width f = (if ori = portrait then 768 else 1344) \<and>
      canvas_height f = (if ori = portrait then 1344 else 768) \<and>
      real (canvas_width f) / real (canvas_height f) = (if ori = portrait then 4 / 7 else 7 / 4))"
proof (intro conjI allI impI)
  show r: "real (targetWidth ori) / real (targetHeight ori) = (if ori = portrait then 4 / 7 else 7 / 4)"
    by (cases ori) (simp_all add: targetWidth_def targetHeight_def isPortrait_def)
  fix f assume c: "capture ori videoRef canvasRef ctx = Some f"
  then have wh: "canvas_width f = targetWidth ori" "canvas_height f = targetHeight ori"
    by (auto simp: capture_def Let_def split: option.splits if_splits)
  show "canvas_width f = (if ori = portrait then 768 else 1344)"
    by (simp add: wh targetWidth_def isPortrait_def)
  show "canvas_height f = (if ori = portrait then 1344 else 768)"
    by (simp add: wh targetHeight_def isPortrait_def)
  show "real (canvas_width f) / real (canvas_height f) = (if ori = portrait then 4 / 7 else 7 / 4)"
    using r by (simp only: wh)
qed

theorem capture_target_ratio_witness:
  "capture landscape (Some \<lparr> videoWidth = 640, videoHeight = 480 \<rparr>) True True \<noteq> None \<and>
   canvas_width (the (capture landscape (Some \<lparr> videoWidth = 640, videoHeight = 480 \<rparr>) True True))
     = 1344 \<and>
   canvas_height (the (capture landscape (Some \<lparr> videoWidth = 640, videoHeight = 480 \<rparr>) True True))
     = 768 \<and>
   real (canvas_width (the (capture landscape (Some \<lparr> videoWidth = 640, videoHeight = 480 \<rparr>) True True)))
     / real (canvas_height (the (capture landscape (Some \<lparr> videoWidth = 640, videoHeight = 480 \<rparr>) True True)))
     = 7 / 4 \<and>
   real (targetWidth portrait) / real (targetHeight portrait) = 4 / 7"
proof -
  let ?v = "Some \<lparr> videoWidth = 640, videoHeight = 480 \<rparr>"
  have some: "capture landscape ?v True True \<noteq> None"
    by (simp add: capture_def Let_def)
  then have c: "capture landscape ?v True True = Some (the (capture landscape ?v True True))"
    by simp
  note L = capture_target_ratio [of landscape ?v True True, THEN conjunct2, rule_format, OF c]
  note P = capture_target_ratio [of portrait ?v True True, THEN conjunct1]
  from L have 1: "canvas_width (the (capture landscape ?v True True)) = 1344"
    and 2: "canvas_height (the (capture landscape ?v True True)) = 768"
    and 3: "real (canvas_width (the (capture landscape ?v True True)))
              / real (canvas_height (the (capture landscape ?v True True))) = 7 / 4"
    by simp_all
  from P have 4: "real (targetWidth portrait) / real (targetHeight portrait) = 4 / 7" by simp
  show ?thesis using some 1 2 3 4 by blast
qed

subsection \<open>Countdown and release of the feed\<close>


lemma run_capture_fields:
  "intervals (run_capture s) = intervals s" "countdown (run_capture s) = countdown s"
  "live_streams (run_capture s) = live_streams s" "mounted (run_capture s) = mounted s"
  "cleanup_stream (run_capture s) = cleanup_stream s"
  by (simp_all add: run_capture_def split: option.splits)



lemmas camera_defs =
  mount_def camera_granted_def camera_denied_def click_capture_def startCountdown_def
  tick_def run_capture_def click_back_def unmount_def granted_720p_def

lemma started_state:
  "run [CameraGranted granted_720p, ClickCapture] (mount portrait None True) =
     \<lparr> orientation_prop = portrait, capturedImage = None, context2d = True, mounted = True,
       video = Some \<lparr> videoWidth = 1280, videoHeight = 720 \<rparr>, stream = Some 7,
       cleanup_stream = None, pending = 0, live_streams = {7}, countdown = Some 3,
       intervals = 1, emitted = [] \<rparr>"
  by (simp add: mount_def camera_granted_def click_capture_def startCountdown_def
      granted_720p_def)





lemma cleanup_stream_step: "cleanup_stream (step e s) = cleanup_stream s"
  by (cases e)
     (simp_all add: camera_granted_def camera_denied_def click_capture_def startCountdown_def
        tick_def run_capture_fields click_back_def unmount_def)

lemma cleanup_stream_run: "cleanup_stream (run es s) = cleanup_stream s"
  by (induction es arbitrary: s) (simp_all add: cleanup_stream_step)

lemma unmount_releases_nothing:
  "live_streams (unmount (run es (mount ori ci ctx))) = live_streams (run es (mount ori ci ctx))"
proof -
  have "cleanup_stream (run es (mount ori ci ctx)) = None"
    by (simp add: cleanup_stream_run mount_def)
  then show ?thesis by (simp add: unmount_def)
qed

text \<open>
  Claim C6 says that the feed is released on every exit from the camera screen. The
  cleanup of the effect stops the tracks of the \<open>stream\<close> of its closure, which is
  the \<open>null\<close> of the first render (lemma \<open>unmount_releases_nothing\<close>): after the
  stream 7 has been granted, leaving by BACK or after a completed capture unmounts
  the screen with the stream still live.
\<close>

theorem stream_survives_unmount:
  "live_streams (run [CameraGranted granted_720p, ClickBack, Unmount]
                   (mount portrait None True)) = {7} \<and>
   mounted (run [CameraGranted granted_720p, ClickBack, Unmount]
              (mount portrait None True)) = False \<and>
   live_streams (run [CameraGranted granted_720p, ClickCapture, Tick, Tick, Tick, Unmount]
                   (mount portrait None True)) = {7} \<and>
   stream (run [CameraGranted granted_720p] (mount portrait None True)) = Some 7 \<and>
   cleanup_stream (run [CameraGranted granted_720p] (mount portrait None True)) = None"
proof (intro conjI)
  show "live_streams (run [CameraGranted granted_720p, ClickBack, Unmount]
                   (mount portrait None True)) = {7}"
    by (simp add: camera_defs)
  show "mounted (run [CameraGranted granted_720p, ClickBack, Unmount]
              (mount portrait None True)) = False"
    by (simp add: camera_defs)
  show "live_streams (run [CameraGranted granted_720p, ClickCapture, Tick, Tick, Tick, Unmount]
                   (mount portrait None True)) = {7}"
    by (simp add: camera_defs capture_720p)
  show "stream (run [CameraGranted granted_720p] (mount portrait None True)) = Some 7"
    by (simp add: camera_defs)
  show "cleanup_stream (run [CameraGranted granted_720p] (mount portrait None True)) = None"
    by (simp add: camera_defs)
qed

section \<open>Properties of the administration screen\<close>

text \<open>
  Claim C7: a freshly mounted administration screen is not authenticated; from the
  unauthenticated state, \<open>handleLogin\<close> authenticates exactly when the entered PIN
  equals the configured \<open>adminPin\<close>; and a failed attempt leaves the authentication
  state, the edited settings and concepts and the local storage as they were, its
  only effect outside the state being the alert.
\<close>

theorem admin_login:
  "isAuthenticated (page (admin_mount default_url props storage)) = False \<and>
   (\<not> isAuthenticated (page w) \<longrightarrow>
      (isAuthenticated (page (handleLogin props w))
         \<longleftrightarrow> pin (page w) = adminPin (settings props))) \<and>
   (pin (page w) \<noteq> adminPin (settings props) \<longrightarrow>
      isAuthenticated (page (handleLogin props w)) = isAuthenticated (page w) \<and>
      localSettings (page (handleLogin props w)) = localSettings (page w) \<and>
      localConcepts (page (handleLogin props w)) = localConcepts (page w) \<and>
      localStorage (handleLogin props w) = localStorage w \<and>
      trace (handleLogin props w) = trace w @ [Alert ''INVALID SECURITY PIN''])"
  by (simp add: admin_mount_def initial_page_def handleLogin_def Let_def)

theorem admin_login_witness:
  "isAuthenticated (page (handleLogin demo_props
       ((admin_mount ''https://gas'' demo_props Map.empty)
          \<lparr> page := (page (admin_mount ''https://gas'' demo_props Map.empty)) \<lparr> pin := ''0000'' \<rparr> \<rparr>)))
     = False \<and>
   localSettings (page (handleLogin demo_props
       ((admin_mount ''https://gas'' demo_props Map.empty)
          \<lparr> page := (page (admin_mount ''https://gas'' demo_props Map.empty)) \<lparr> pin := ''0000'' \<rparr> \<rparr>)))
     = demo_settings \<and>
   trace (handleLogin demo_props
       ((admin_mount ''https://gas'' demo_props Map.empty)
          \<lparr> page := (page (admin_mount ''https://gas'' demo_props Map.empty)) \<lparr> pin := ''0000'' \<rparr> \<rparr>))
     = [Alert ''INVALID SECURITY PIN''] \<and>
   isAuthenticated (page (handleLogin demo_props
       ((admin_mount ''https://gas'' demo_props Map.empty)
          \<lparr> page := (page (admin_mount ''https://gas'' demo_props Map.empty)) \<lparr> pin := ''1234'' \<rparr> \<rparr>)))
     = True"
proof -
  let ?w0 = "admin_mount ''https://gas'' demo_props Map.empty"
  let ?bad = "?w0 \<lparr> page := (page ?w0) \<lparr> pin := ''0000'' \<rparr> \<rparr>"
  let ?good = "?w0 \<lparr> page := (page ?w0) \<lparr> pin := ''1234'' \<rparr> \<rparr>"
  have fresh: "isAuthenticated (page ?w0) = False"
    using admin_login [of "''https://gas''" demo_props Map.empty ?w0] by blast
  have p: "adminPin (settings demo_props) = ''1234''"
    by (simp add: demo_props_def demo_settings_def)
  have nb: "\<not> isAuthenticated (page ?bad)" and ng: "\<not> isAuthenticated (page ?good)"
    using fresh by simp_all
  have wrong: "pin (page ?bad) \<noteq> adminPin (settings demo_props)" by (simp add: p)
  have right: "pin (page ?good) = adminPin (settings demo_props)" by (simp add: p)
  note B = admin_login [of "''https://gas''" demo_props Map.empty ?bad,
      THEN conjunct2, THEN conjunct2, THEN mp, OF wrong]
  note G = admin_login [of "''https://gas''" demo_props Map.empty ?good,
      THEN conjunct2, THEN conjunct1, THEN mp, OF ng]
  have ls: "localSettings (page ?bad) = demo_settings" "trace ?bad = []"
    by (simp_all add: admin_mount_def initial_page_def demo_props_def)
  from B nb have 1: "isAuthenticated (page (handleLogin demo_props ?bad)) = False" by simp
  from B ls have 2: "localSettings (page (handleLogin demo_props ?bad)) = demo_settings" by simp
  from B ls have 3: "trace (handleLogin demo_props ?bad) = [Alert ''INVALID SECURITY PIN'']" by simp
  from G right have 4: "isAuthenticated (page (handleLogin demo_props ?good)) = True" by simp
  show ?thesis using 1 2 3 4 by blast
qed

text \<open>
  Claim C8: when the remote save of the settings, or of the concepts, reports not-ok,
  the state of the screen, with the edits \<open>localSettings\<close> and \<open>localConcepts\<close>, is
  unchanged, and neither \<open>onSaveSettings\<close> nor \<open>onSaveConcepts\<close> is called.
\<close>

theorem failed_save_keeps_edits:
  "(saveSettingsToGas (localSettings (page w)) (adminPin (settings props)) = Resolves False \<longrightarrow>
      page (handleSaveSettings props saveSettingsToGas w) = page w \<and>
      filter commits (trace (handleSaveSettings props saveSettingsToGas w))
        = filter commits (trace w)) \<and>
   (saveConceptsToGas (localConcepts (page w)) (adminPin (settings props)) = Resolves False \<longrightarrow>
      page (syncConcepts props saveConceptsToGas w) = page w \<and>
      localStorage (syncConcepts props saveConceptsToGas w) = localStorage w \<and>
      filter commits (trace (syncConcepts props saveConceptsToGas w))
        = filter commits (trace w))"
  by (simp add: handleSaveSettings_def syncConcepts_def Let_def)

theorem failed_save_keeps_edits_witness:
  "localSettings (page (handleSaveSettings demo_props
       (\<lambda>s p. Resolves False :: (unit, bool) outcome) edited_world))
     = demo_settings \<lparr> eventName := ''Gala Night'', adminPin := ''9999'' \<rparr> \<and>
   localSettings (page (handleSaveSettings demo_props
       (\<lambda>s p. Resolves False :: (unit, bool) outcome) edited_world))
     \<noteq> settings demo_props \<and>
   filter commits (trace (handleSaveSettings demo_props
       (\<lambda>s p. Resolves False :: (unit, bool) outcome) edited_world)) = [] \<and>
   localConcepts (page (syncConcepts demo_props
       (\<lambda>c p. Resolves False :: (unit, bool) outcome) edited_world))
     = [\<lparr> concept_id = ''c1'', name = ''Film Noir'',
          prompt = ''black and white film noir portrait'', thumbnail = ''thumb'' \<rparr>] \<and>
   localConcepts (page (syncConcepts demo_props
       (\<lambda>c p. Resolves False :: (unit, bool) outcome) edited_world))
     \<noteq> concepts demo_props \<and>
   filter commits (trace (syncConcepts demo_props
       (\<lambda>c p. Resolves False :: (unit, bool) outcome) edited_world)) = []"
proof -
  let ?f = "\<lambda>(s :: PhotoboothSettings) (p :: string). Resolves False :: (unit, bool) outcome"
  let ?g = "\<lambda>(c :: Concept list) (p :: string). Resolves False :: (unit, bool) outcome"
  have f: "?f (localSettings (page edited_world)) (adminPin (settings demo_props)) = Resolves False"
    and g: "?g (localConcepts (page edited_world)) (adminPin (settings demo_props)) = Resolves False"
    by simp_all
  note T = failed_save_keeps_edits [of ?f edited_world demo_props ?g]
  note A = T [THEN conjunct1, THEN mp, OF f]
  note B = T [THEN conjunct2, THEN mp, OF g]
  have e: "localSettings (page edited_world)
             = demo_settings \<lparr> eventName := ''Gala Night'', adminPin := ''9999'' \<rparr>"
    "localConcepts (page edited_world)
       = [\<lparr> concept_id = ''c1'', name = ''Film Noir'',
            prompt = ''black and white film noir portrait'', thumbnail = ''thumb'' \<rparr>]"
    "trace edited_world = []"
    by (simp_all add: edited_world_def)
  have d: "demo_settings \<lparr> eventName := ''Gala Night'', adminPin := ''9999'' \<rparr> \<noteq> settings demo_props"
    "[\<lparr> concept_id = ''c1'', name = ''Film Noir'',
        prompt = ''black and white film noir portrait'', thumbnail = ''thumb'' \<rparr>]
       \<noteq> concepts demo_props"
    by (simp_all add: demo_props_def demo_settings_def)
  from A e d have 1:
    "localSettings (page (handleSaveSettings demo_props ?f edited_world))
       = demo_settings \<lparr> eventName := ''Gala Night'', adminPin := ''9999'' \<rparr>"
    "localSettings (page (handleSaveSettings demo_props ?f edited_world)) \<noteq> settings demo_props"
    "filter commits (trace (handleSaveSettings demo_props ?f edited_world)) = []"
    by simp_all
  from B e d have 2:
    "localConcepts (page (syncConcepts demo_props ?g edited_world))
       = [\<lparr> concept_id = ''c1'', name = ''Film Noir'',
            prompt = ''black and white film noir portrait'', thumbnail = ''thumb'' \<rparr>]"
    "localConcepts (page (syncConcepts demo_props ?g edited_world)) \<noteq> concepts demo_props"
    "filter commits (trace (syncConcepts demo_props ?g edited_world)) = []"
    by simp_all
  show ?thesis using 1 2 by blast
qed

text \<open>
  Claim C10: \<open>handleSaveSettings\<close> writes the current base URL to local storage
  first and calls the remote save after it; the stored URL is the current one
  whatever the remote save answers, and when the save does not report ok these two
  are all the handler does.
\<close>

theorem base_url_cached_before_save:
  "localStorage (handleSaveSettings props saveSettingsToGas w) ''APPS_SCRIPT_BASE_URL''
     = Some (gasUrl (page w)) \<and>
   (\<exists>rest. trace (handleSaveSettings props saveSettingsToGas w) =
      trace w @ SetItem ''APPS_SCRIPT_BASE_URL'' (gasUrl (page w))
        # SaveSettingsToGas (localSettings (page w)) (adminPin (settings props)) # rest) \<and>
   (saveSettingsToGas (localSettings (page w)) (adminPin (settings props)) \<noteq> Resolves True
      \<longrightarrow> trace (handleSaveSettings props saveSettingsToGas w) =
          trace w @ [SetItem ''APPS_SCRIPT_BASE_URL'' (gasUrl (page w)),
                     SaveSettingsToGas (localSettings (page w)) (adminPin (settings props))])"
  by (auto simp: handleSaveSettings_def Let_def split: outcome.splits)

theorem base_url_cached_before_save_witness:
  "localStorage (handleSaveSettings demo_props (\<lambda>s p. Resolves False :: (unit, bool) outcome)
       ((admin_mount ''https://gas'' demo_props Map.empty)
          \<lparr> page := (page (admin_mount ''https://gas'' demo_props Map.empty))
               \<lparr> gasUrl := ''https://new'' \<rparr> \<rparr>)) ''APPS_SCRIPT_BASE_URL''
     = Some ''https://new'' \<and>
   trace (handleSaveSettings demo_props (\<lambda>s p. Resolves False :: (unit, bool) outcome)
       ((admin_mount ''https://gas'' demo_props Map.empty)
          \<lparr> page := (page (admin_mount ''https://gas'' demo_props Map.empty))
               \<lparr> gasUrl := ''https://new'' \<rparr> \<rparr>))
     = [SetItem ''APPS_SCRIPT_BASE_URL'' ''https://new'', SaveSettingsToGas demo_settings ''1234'']"
proof -
  let ?w0 = "admin_mount ''https://gas'' demo_props Map.empty"
  let ?w = "?w0 \<lparr> page := (page ?w0) \<lparr> gasUrl := ''https://new'' \<rparr> \<rparr>"
  let ?f = "\<lambda>(s :: PhotoboothSettings) (p :: string). Resolves False :: (unit, bool) outcome"
  note T = base_url_cached_before_save [of demo_props ?f ?w]
  have h: "?f (localSettings (page ?w)) (adminPin (settings demo_props)) \<noteq> Resolves True"
    by simp
  have v: "gasUrl (page ?w) = ''https://new''" "trace ?w = []"
    "localSettings (page ?w) = demo_settings" "adminPin (settings demo_props) = ''1234''"
    by (simp_all add: admin_mount_def initial_page_def demo_props_def demo_settings_def)
  from T [THEN conjunct1] have 1:
    "localStorage (handleSaveSettings demo_props ?f ?w) ''APPS_SCRIPT_BASE_URL'' = Some ''https://new''"
    by (simp only: v)
  from T [THEN conjunct2, THEN conjunct2, THEN mp, OF h] have 2:
    "trace (handleSaveSettings demo_props ?f ?w)
       = [SetItem ''APPS_SCRIPT_BASE_URL'' ''https://new'', SaveSettingsToGas demo_settings ''1234'']"
    by (simp only: v append_Nil)
  show ?thesis using 1 2 by blast
qed

end
